theory Spec2Isabelle
  imports Main "HOL-Library.Sublist"
begin

section \<open>lint\_configs: placement of the bundled linter configuration\<close>

text \<open>
  The package \<^verbatim>\<open>lint_configs\<close> has two functions, \<^verbatim>\<open>get_python_config_path\<close> and
  \<^verbatim>\<open>copy_config_to_project\<close> (\<^verbatim>\<open>__init__.py\<close>), and a command line entry point
  \<^verbatim>\<open>main\<close> (\<^verbatim>\<open>__main__.py\<close>). All of them act on the file system and the console, so
  the embedding threads a \<open>world\<close> through every call and returns it, also when the
  call raises.
\<close>

subsection \<open>Paths, files and the world\<close>

text \<open>
  A \<^verbatim>\<open>pathlib.Path\<close> is the list of its components. Two different lists are two
  different files: links and case-insensitive file systems are not modelled.
  A file holds characters; \<open>char\<close> has 256 values, read as the code points U+0000
  to U+00FF. Decoding is not modelled beyond its failure, which is one of the read
  faults of the world.
\<close>

type_synonym path = "string list"

datatype node = File string | Dir

datatype io_error =
    FileNotFoundError
  | IsADirectoryError
  | PermissionError
  | UnicodeDecodeError
  | UnicodeEncodeError
  | NoSpaceLeftError

text \<open>
  \<^verbatim>\<open>Path.write_text\<close> opens the file in mode \<^verbatim>\<open>'w'\<close>, which creates or truncates
  it, then writes the data and closes the file. What the operating system will do with
  a write to a path is an input of the model: it completes, it fails when the file is
  opened (nothing has changed then), or it fails after the file was opened and \<open>n\<close>
  characters were stored (disk full).
\<close>

datatype write_fate =
    Completes
  | FailsAtOpen io_error
  | FailsAfterOpen nat io_error

text \<open>
  Each \<^verbatim>\<open>print\<close> of the source is one notice. The wording of the lines is advisory
  and is not modelled; which lines are printed, in which order and with which
  arguments, is.
\<close>

datatype notice =
    Appended path          \<comment> \<open>"Configuration appended to \{target\_file\}"\<close>
  | ReviewMerged           \<comment> \<open>"Please review the merged file and:"\<close>
  | RemoveDuplicates       \<comment> \<open>"- Remove any duplicate [tool.*] sections"\<close>
  | MergeConflicting       \<comment> \<open>"- Merge conflicting settings as needed"\<close>
  | AlreadyExists string   \<comment> \<open>"pyproject.toml already exists. Creating \{target\_file.name\} instead."\<close>
  | MergeHint              \<comment> \<open>"To merge with existing pyproject.toml, use: lint-configs copy --merge"\<close>
  | Copied path            \<comment> \<open>"Configuration copied to \{target\_file\}"\<close>
  | NextSteps              \<comment> \<open>"Next steps:"\<close>
  | StepReview             \<comment> \<open>"1. Review and customize the config for your project"\<close>
  | StepIsort              \<comment> \<open>"2. Update [tool.ruff.lint.isort] known-first-party ..."\<close>
  | StepCoverage           \<comment> \<open>"3. Update [tool.coverage.run] source ..."\<close>
  | StepRename             \<comment> \<open>"4. Either rename to pyproject.toml or merge into existing pyproject.toml"\<close>
  | StepRuffFifth          \<comment> \<open>"5. Run: ruff check . --fix"\<close>
  | StepRuffFourth         \<comment> \<open>"4. Run: ruff check . --fix"\<close>
  | StepMypy               \<comment> \<open>"5. Run: mypy ."\<close>
  | ShowPath path          \<comment> \<open>\<^verbatim>\<open>print(config_path)\<close>\<close>
  | ShowContent string     \<comment> \<open>\<^verbatim>\<open>print(config_path.read_text())\<close>\<close>
  | Help                   \<comment> \<open>\<^verbatim>\<open>parser.print_help()\<close>\<close>
  | ErrorLine io_error     \<comment> \<open>"Error: \{e\}"\<close>

record world =
  fs :: "path \<Rightarrow> node option"          \<comment> \<open>the file system\<close>
  cwd :: path                                  \<comment> \<open>\<^verbatim>\<open>Path.cwd()\<close>\<close>
  package_dir :: path                          \<comment> \<open>\<^verbatim>\<open>Path(__file__).parent\<close>\<close>
  read_fault :: "path \<Rightarrow> io_error option"  \<comment> \<open>paths that cannot be read, and why\<close>
  write_fate :: "path \<Rightarrow> write_fate"       \<comment> \<open>what a write to a path will do\<close>
  writes :: "path list"                        \<comment> \<open>the files opened for writing so far, oldest first\<close>
  stdout_fault :: "notice \<Rightarrow> io_error option" \<comment> \<open>lines standard output cannot take, and why\<close>
  stdout :: "notice list"
  stderr :: "notice list"

definition joinpath :: "path \<Rightarrow> string \<Rightarrow> path" where
  "joinpath p n = p @ [n]"

definition name :: "path \<Rightarrow> string" where
  "name p = (case p of [] \<Rightarrow> [] | _ # _ \<Rightarrow> last p)"

definition parent :: "path \<Rightarrow> path" where
  "parent p = butlast p"

definition exists :: "world \<Rightarrow> path \<Rightarrow> bool" where
  "exists w p = (case fs w p of None \<Rightarrow> False | Some _ \<Rightarrow> True)"

text \<open>
  \<^verbatim>\<open>Path.read_text\<close> opens the file in text mode with universal newlines: every
  \<^verbatim>\<open>\r\n\<close> and every \<^verbatim>\<open>\r\<close> left alone is given to the caller as \<^verbatim>\<open>\n\<close>.
\<close>

fun universal_newlines :: "string \<Rightarrow> string" where
  "universal_newlines [] = []"
| "universal_newlines [c] = (if c = CHR 0x0D then [CHR 0x0A] else [c])"
| "universal_newlines (c # d # cs) =
     (if c = CHR 0x0D
      then (if d = CHR 0x0A then CHR 0x0A # universal_newlines cs
            else CHR 0x0A # universal_newlines (d # cs))
      else c # universal_newlines (d # cs))"

definition read_text :: "world \<Rightarrow> path \<Rightarrow> io_error + string" where
  "read_text w p =
     (case read_fault w p of
        Some e \<Rightarrow> Inl e
      | None \<Rightarrow>
         (case fs w p of
            None \<Rightarrow> Inl FileNotFoundError
          | Some Dir \<Rightarrow> Inl IsADirectoryError
          | Some (File t) \<Rightarrow> Inr (universal_newlines t)))"

text \<open>
  \<^verbatim>\<open>Path.write_text\<close> writes each \<^verbatim>\<open>\n\<close> as the line separator of the platform. The
  model is of a platform whose separator is \<^verbatim>\<open>\n\<close>, so the characters are stored as
  they are given.
\<close>

definition write_text :: "world \<Rightarrow> path \<Rightarrow> string \<Rightarrow> (io_error + unit) \<times> world" where
  "write_text w p data =
     (case fs w p of
        Some Dir \<Rightarrow> (Inl IsADirectoryError, w)
      | _ \<Rightarrow>
         (case write_fate w p of
            FailsAtOpen e \<Rightarrow> (Inl e, w)
          | FailsAfterOpen n e \<Rightarrow>
              (Inl e, w\<lparr>fs := (fs w)(p \<mapsto> File (take n data)), writes := writes w @ [p]\<rparr>)
          | Completes \<Rightarrow>
              (Inr (), w\<lparr>fs := (fs w)(p \<mapsto> File data), writes := writes w @ [p]\<rparr>)))"

text \<open>
  \<^verbatim>\<open>print\<close> writes to standard output, which encodes strictly: a line the console
  cannot encode (the check mark and the warning sign of four of the notices, on a
  console that is not Unicode) raises \<^verbatim>\<open>UnicodeEncodeError\<close> and prints nothing. Which
  lines fail is an input of the model. \<open>print_lines\<close> is a run of consecutive
  \<^verbatim>\<open>print\<close> statements: it stops at the first one that raises, with the earlier lines
  printed.
\<close>

definition print :: "world \<Rightarrow> notice \<Rightarrow> io_error option \<times> world" where
  "print w n =
     (case stdout_fault w n of
        Some e \<Rightarrow> (Some e, w)
      | None \<Rightarrow> (None, w\<lparr>stdout := stdout w @ [n]\<rparr>))"

fun print_lines :: "world \<Rightarrow> notice list \<Rightarrow> io_error option \<times> world" where
  "print_lines w [] = (None, w)"
| "print_lines w (n # ns) =
     (case print w n of
        (Some e, w1) \<Rightarrow> (Some e, w1)
      | (None, w1) \<Rightarrow> print_lines w1 ns)"

text \<open>
  Standard error replaces what it cannot encode (its error handler is
  \<^verbatim>\<open>backslashreplace\<close>), so encoding cannot fail for the one line \<^verbatim>\<open>main\<close>
  prints there.
\<close>

definition print_err :: "world \<Rightarrow> notice \<Rightarrow> world" where
  "print_err w n = w\<lparr>stderr := stderr w @ [n]\<rparr>"

subsection \<open>Text\<close>

text \<open>
  \<^verbatim>\<open>str.rstrip()\<close> without argument removes the trailing characters for which
  \<^verbatim>\<open>str.isspace\<close> holds; below U+0100 these are the code points listed here.
\<close>

definition isspace :: "char \<Rightarrow> bool" where
  "isspace c = (of_char c \<in> set [9, 10, 11, 12, 13, 28, 29, 30, 31, 32, 133, 160 :: nat])"

definition rstrip :: "string \<Rightarrow> string" where
  "rstrip s = rev (dropWhile isspace (rev s))"

definition version :: string where
  "version = ''1.0.0''"

definition header :: string where
  "header =
     ''# This configuration was copied from agentic-guardrails package\<newline>'' @
     ''# Package version: '' @ version @ ''\<newline>'' @
     ''# Source: https://github.com/cajias/lint-configs\<newline>'' @
     ''# \<newline>'' @
     ''# To update: pip install --upgrade agentic-guardrails && lint-configs copy\<newline>'' @
     ''#\<newline>'' @
     ''# After copying, customize these sections for your project:\<newline>'' @
     ''# - [tool.ruff.lint.isort] known-first-party: Add your package name\<newline>'' @
     ''# - [tool.coverage.run] source: Add your package name\<newline>'' @
     ''# - [[tool.mypy.overrides]] module: Add your third-party dependencies\<newline>'' @
     ''#\<newline>'' @
     ''\<newline>''"

definition separator :: string where
  "separator =
     (''\<newline>\<newline># '' @ replicate 76 CHR ''='' @ ''\<newline>'') @
     ''# Linting Configuration from agentic-guardrails package\<newline>'' @
     (''# '' @ replicate 76 CHR ''='' @ ''\<newline>\<newline>'')"

subsection \<open>The package functions\<close>

definition get_python_config_path :: "world \<Rightarrow> path" where
  "get_python_config_path w =
     joinpath (joinpath (package_dir w) ''python'') ''pyproject-linters.toml''"

text \<open>The prints that end \<^verbatim>\<open>copy_config_to_project\<close>, after either branch.\<close>

definition next_steps :: "path \<Rightarrow> notice list" where
  "next_steps target_file =
     [NextSteps, StepReview, StepIsort, StepCoverage] @
     (if name target_file = ''pyproject-linters.toml''
      then [StepRename, StepRuffFifth]
      else [StepRuffFourth, StepMypy])"

text \<open>
  The first statement of \<^verbatim>\<open>copy_config_to_project\<close>: without a target the current
  directory is used, otherwise \<^verbatim>\<open>Path(target_dir)\<close>.
\<close>

definition target_directory :: "world \<Rightarrow> path option \<Rightarrow> path" where
  "target_directory w target_dir = (case target_dir of None \<Rightarrow> cwd w | Some d \<Rightarrow> d)"

text \<open>
  The function has no handler: whatever a read, the write or a print raises ends the
  call there, with the world as that statement left it.
\<close>

definition copy_config_to_project ::
  "world \<Rightarrow> path option \<Rightarrow> bool \<Rightarrow> (io_error + path) \<times> world" where
  "copy_config_to_project w target_dir_arg merge_with_existing =
     (let target_dir = target_directory w target_dir_arg;
          source_config = get_python_config_path w
      in case read_text w source_config of
           Inl e \<Rightarrow> (Inl e, w)
         | Inr source_content \<Rightarrow>
            (let target_file = joinpath target_dir ''pyproject.toml'' in
             if merge_with_existing \<and> exists w target_file then
               (case read_text w target_file of
                  Inl e \<Rightarrow> (Inl e, w)
                | Inr existing_content \<Rightarrow>
                   (let merged_content =
                          rstrip existing_content @ separator @ header @ source_content
                    in case write_text w target_file merged_content of
                         (Inl e, w1) \<Rightarrow> (Inl e, w1)
                       | (Inr u, w1) \<Rightarrow>
                          (case print_lines w1
                                  ([Appended target_file, ReviewMerged,
                                    RemoveDuplicates, MergeConflicting]
                                   @ next_steps target_file) of
                             (Some e, w2) \<Rightarrow> (Inl e, w2)
                           | (None, w2) \<Rightarrow> (Inr target_file, w2))))
             else
               (let sidecar = exists w target_file \<and> \<not> merge_with_existing;
                    target_file' =
                      (if sidecar then joinpath target_dir ''pyproject-linters.toml''
                       else target_file)
                in case (if sidecar
                         then print_lines w [AlreadyExists (name target_file'), MergeHint]
                         else (None, w)) of
                     (Some e, w1) \<Rightarrow> (Inl e, w1)
                   | (None, w1) \<Rightarrow>
                      (let target_content = header @ source_content
                       in case write_text w1 target_file' target_content of
                            (Inl e, w2) \<Rightarrow> (Inl e, w2)
                          | (Inr u, w2) \<Rightarrow>
                             (case print_lines w2
                                     (Copied target_file' # next_steps target_file') of
                                (Some e, w3) \<Rightarrow> (Inl e, w3)
                              | (None, w3) \<Rightarrow> (Inr target_file', w3))))))"

text \<open>The two paths the function can write to.\<close>

abbreviation canonical_file :: "world \<Rightarrow> path option \<Rightarrow> path" where
  "canonical_file w td \<equiv> joinpath (target_directory w td) ''pyproject.toml''"

abbreviation sidecar_file :: "world \<Rightarrow> path option \<Rightarrow> path" where
  "sidecar_file w td \<equiv> joinpath (target_directory w td) ''pyproject-linters.toml''"

text \<open>
  The path a call writes to: the sidecar when \<open>pyproject.toml\<close> exists and merging is
  not requested (the test of line 98), the canonical path otherwise.
\<close>

abbreviation placement_target :: "world \<Rightarrow> path option \<Rightarrow> bool \<Rightarrow> path" where
  "placement_target w td m \<equiv>
     (if \<not> m \<and> exists w (canonical_file w td) then sidecar_file w td
      else canonical_file w td)"

subsection \<open>The command line\<close>

text \<open>
  \<^verbatim>\<open>main\<close> is modelled from the parsed arguments on: \<open>Copy target merge\<close> and
  \<open>Show cat\<close> are the two subcommands, \<open>NoCommand\<close> is a call without one. The
  \<open>copy\<close> branch catches every exception; the other branches catch none, so
  there the result of \<open>main\<close> can be the error itself.
\<close>

datatype command = Copy "path option" bool | Show bool | NoCommand

definition main :: "world \<Rightarrow> command \<Rightarrow> (io_error + int) \<times> world" where
  "main w args =
     (case args of
        Copy target merge \<Rightarrow>
          (case copy_config_to_project w target merge of
             (Inr config_path, w1) \<Rightarrow> (Inr 0, w1)
           | (Inl e, w1) \<Rightarrow> (Inr 1, print_err w1 (ErrorLine e)))
      | Show cat \<Rightarrow>
          (let config_path = get_python_config_path w in
           if cat then
             (case read_text w config_path of
                Inl e \<Rightarrow> (Inl e, w)
              | Inr content \<Rightarrow>
                 (case print w (ShowContent content) of
                    (Some e, w1) \<Rightarrow> (Inl e, w1)
                  | (None, w1) \<Rightarrow> (Inr 0, w1)))
           else
             (case print w (ShowPath config_path) of
                (Some e, w1) \<Rightarrow> (Inl e, w1)
              | (None, w1) \<Rightarrow> (Inr 0, w1)))
      | NoCommand \<Rightarrow>
          (case print w Help of
             (Some e, w1) \<Rightarrow> (Inl e, w1)
           | (None, w1) \<Rightarrow> (Inr 0, w1)))"

subsection \<open>Sample worlds\<close>

text \<open>
  Concrete worlds on which the theorems below are run: the package is installed under
  \<open>site-packages\<close>, its bundled file holds one line, and the project directory is
  \<open>home/project\<close>.
\<close>

definition sample_world :: "(path \<Rightarrow> node option) \<Rightarrow> (path \<Rightarrow> write_fate) \<Rightarrow> world" where
  "sample_world files fate =
     \<lparr>fs = files, cwd = [''home'', ''project''],
      package_dir = [''site-packages'', ''lint_configs''],
      read_fault = (\<lambda>p. None), write_fate = fate,
      writes = [], stdout_fault = (\<lambda>n. None), stdout = [], stderr = []\<rparr>"

definition bundled_file :: path where
  "bundled_file = [''site-packages'', ''lint_configs'', ''python'', ''pyproject-linters.toml'']"

definition project_dir :: path where
  "project_dir = [''home'', ''project'']"

definition empty_project :: world where
  "empty_project =
     sample_world [bundled_file \<mapsto> File ''[tool.ruff]\<newline>''] (\<lambda>p. Completes)"

definition project_with_pyproject :: world where
  "project_with_pyproject =
     sample_world
       [bundled_file \<mapsto> File ''[tool.ruff]\<newline>'',
        [''home'', ''project'', ''pyproject.toml''] \<mapsto> File ''[project]\<newline>'']
       (\<lambda>p. Completes)"

definition project_with_blank_lines :: world where
  "project_with_blank_lines =
     sample_world
       [bundled_file \<mapsto> File ''[tool.ruff]\<newline>'',
        [''home'', ''project'', ''pyproject.toml''] \<mapsto>
          File ''[project]\<newline>\<newline>\<newline>'']
       (\<lambda>p. Completes)"

definition project_with_sidecar :: world where
  "project_with_sidecar =
     sample_world
       [bundled_file \<mapsto> File ''[tool.ruff]\<newline>'',
        [''home'', ''project'', ''pyproject.toml''] \<mapsto> File ''[project]\<newline>'',
        [''home'', ''project'', ''pyproject-linters.toml''] \<mapsto> File ''[tool.black]\<newline>'']
       (\<lambda>p. Completes)"

definition project_on_full_disk :: world where
  "project_on_full_disk =
     sample_world
       [bundled_file \<mapsto> File ''[tool.ruff]\<newline>'',
        [''home'', ''project'', ''pyproject.toml''] \<mapsto> File ''[project]\<newline>'']
       (\<lambda>p. FailsAfterOpen 0 NoSpaceLeftError)"

text \<open>A console that cannot encode the check mark and the warning sign.\<close>

definition ascii_console :: "notice \<Rightarrow> io_error option" where
  "ascii_console n =
     (case n of
        Appended p \<Rightarrow> Some UnicodeEncodeError
      | ReviewMerged \<Rightarrow> Some UnicodeEncodeError
      | AlreadyExists f \<Rightarrow> Some UnicodeEncodeError
      | Copied p \<Rightarrow> Some UnicodeEncodeError
      | _ \<Rightarrow> None)"

definition project_on_ascii_console :: world where
  "project_on_ascii_console = empty_project\<lparr>stdout_fault := ascii_console\<rparr>"

definition project_with_crlf :: world where
  "project_with_crlf =
     sample_world
       [bundled_file \<mapsto> File ''[tool.ruff]\<newline>'',
        [''home'', ''project'', ''pyproject.toml''] \<mapsto>
          File (''[project]'' @ [CHR 0x0D, CHR 0x0A] @ ''name = 1'' @ [CHR 0x0D, CHR 0x0A])]
       (\<lambda>p. Completes)"

definition project_without_package :: world where
  "project_without_package =
     sample_world
       [[''home'', ''project'', ''pyproject.toml''] \<mapsto> File ''[project]\<newline>'']
       (\<lambda>p. Completes)"

section \<open>Basic facts\<close>

text \<open>The definitions a run on a sample world unfolds.\<close>

lemmas run_defs =
  copy_config_to_project_def main_def Let_def read_text_def write_text_def exists_def
  target_directory_def joinpath_def get_python_config_path_def print_def print_err_def
  next_steps_def name_def parent_def sample_world_def bundled_file_def project_dir_def

subsection \<open>Printing changes the console only\<close>

lemma print_frame:
  assumes "print w n = (r, w')"
  shows "fs w' = fs w \<and> writes w' = writes w \<and> cwd w' = cwd w \<and>
         package_dir w' = package_dir w \<and> read_fault w' = read_fault w \<and>
         write_fate w' = write_fate w \<and> stdout_fault w' = stdout_fault w \<and>
         stderr w' = stderr w"
  using assms by (auto simp: print_def split: option.splits)

lemma print_lines_frame:
  assumes "print_lines w ns = (r, w')"
  shows "fs w' = fs w \<and> writes w' = writes w \<and> cwd w' = cwd w \<and>
         package_dir w' = package_dir w \<and> read_fault w' = read_fault w \<and>
         write_fate w' = write_fate w \<and> stdout_fault w' = stdout_fault w \<and>
         stderr w' = stderr w"
  using assms
proof (induction ns arbitrary: w)
  case Nil
  then show ?case by simp
next
  case (Cons n ns)
  obtain r1 w1 where p: "print w n = (r1, w1)" by (cases "print w n")
  note f = print_frame [OF p]
  show ?case
  proof (cases r1)
    case None
    with Cons.prems p have "print_lines w1 ns = (r, w')" by simp
    from Cons.IH [OF this] f show ?thesis by simp
  next
    case (Some e)
    with Cons.prems p have "w' = w1" by simp
    with f show ?thesis by simp
  qed
qed

lemma print_lines_fault:
  assumes "print_lines w ns = (Some e, w')"
  shows "\<exists>n. stdout_fault w n = Some e"
  using assms
proof (induction ns arbitrary: w)
  case Nil
  then show ?case by simp
next
  case (Cons n ns)
  obtain r1 w1 where p: "print w n = (r1, w1)" by (cases "print w n")
  show ?case
  proof (cases r1)
    case None
    with Cons.prems p have "print_lines w1 ns = (Some e, w')" by simp
    from Cons.IH [OF this] print_frame [OF p] show ?thesis by simp
  next
    case (Some e1)
    with Cons.prems p have "e1 = e" by simp
    with Some p show ?thesis
      by (auto simp: print_def split: option.splits)
  qed
qed

lemma print_lines_no_fault:
  assumes "\<And>n. stdout_fault w n = None"
  shows "fst (print_lines w ns) = None"
  using assms
proof (induction ns arbitrary: w)
  case Nil
  then show ?case by simp
next
  case (Cons n ns)
  have "stdout_fault (w\<lparr>stdout := stdout w @ [n]\<rparr>) k = None" for k
    using Cons.prems by simp
  from Cons.IH [OF this] Cons.prems show ?case
    by (simp add: print_def)
qed

subsection \<open>Reading and writing\<close>

lemma universal_newlines_no_CR:
  "CHR 0x0D \<notin> set t \<Longrightarrow> universal_newlines t = t"
  by (induction t rule: universal_newlines.induct) auto

lemma read_text_same:
  assumes "fs w' = fs w" and "read_fault w' = read_fault w"
  shows "read_text w' p = read_text w p"
  using assms by (simp add: read_text_def split: option.splits)

lemma write_text_frame:
  assumes "write_text w p d = (r, w')"
  shows "cwd w' = cwd w \<and> package_dir w' = package_dir w \<and> read_fault w' = read_fault w \<and>
         write_fate w' = write_fate w \<and> stdout_fault w' = stdout_fault w \<and>
         stderr w' = stderr w"
  using assms
  by (auto simp: write_text_def split: option.splits node.splits write_fate.splits)

lemma write_text_Inr:
  assumes "write_text w p d = (Inr u, w')"
  shows "w' = w\<lparr>fs := (fs w)(p \<mapsto> File d), writes := writes w @ [p]\<rparr>
         \<and> write_fate w p = Completes"
  using assms
  by (auto simp: write_text_def split: option.splits node.splits write_fate.splits)

lemma write_text_Inl:
  assumes "write_text w p d = (Inl e, w')"
  shows "(w' = w \<and> ((fs w p = Some Dir \<and> e = IsADirectoryError) \<or> write_fate w p = FailsAtOpen e))
       \<or> (\<exists>n. write_fate w p = FailsAfterOpen n e \<and>
             w' = w\<lparr>fs := (fs w)(p \<mapsto> File (take n d)), writes := writes w @ [p]\<rparr>)"
  using assms
  by (auto simp: write_text_def split: option.splits node.splits write_fate.splits)

lemma write_text_Completes:
  assumes "fs w p \<noteq> Some Dir" and "write_fate w p = Completes"
  shows "write_text w p d
    = (Inr (), w\<lparr>fs := (fs w)(p \<mapsto> File d), writes := writes w @ [p]\<rparr>)"
  using assms
  by (simp add: write_text_def split: option.splits node.splits)

lemma read_text_File:
  "read_text w p = Inr t \<Longrightarrow> \<exists>s. fs w p = Some (File s) \<and> t = universal_newlines s"
  by (auto simp: read_text_def split: option.splits node.splits)

lemma joinpath_names_differ:
  "joinpath d ''pyproject-linters.toml'' \<noteq> joinpath d ''pyproject.toml''"
  "joinpath d ''pyproject.toml'' \<noteq> joinpath d ''pyproject-linters.toml''"
  by (simp_all add: joinpath_def)

lemma name_nonempty: "p \<noteq> [] \<Longrightarrow> name p = last p"
  by (cases p) (simp_all add: name_def)

lemma name_joinpath: "name (joinpath d n) = n"
  by (simp add: name_nonempty joinpath_def)

lemma parent_joinpath: "parent (joinpath d n) = d"
  by (simp add: parent_def joinpath_def)

lemma result_pair: "fst r = a \<Longrightarrow> r = (a, snd r)"
  by (metis prod.collapse)

lemma sample_paths:
  "canonical_file w (Some project_dir) = [''home'', ''project'', ''pyproject.toml'']"
  "sidecar_file w (Some project_dir) = [''home'', ''project'', ''pyproject-linters.toml'']"
  by (simp_all add: run_defs)

subsection \<open>What \<open>rstrip\<close> removes\<close>

lemma rstrip_split: "s = rstrip s @ rev (takeWhile isspace (rev s))"
proof -
  have "rev (takeWhile isspace (rev s) @ dropWhile isspace (rev s)) = s"
    by (simp only: takeWhile_dropWhile_id rev_rev_ident)
  then show ?thesis
    by (simp only: rstrip_def rev_append)
qed

lemma rstrip_prefix: "prefix (rstrip s) s"
  using rstrip_split [of s] by (metis prefixI)

lemma rstrip_drops_space: "list_all isspace (drop (length (rstrip s)) s)"
proof -
  have "drop (length (rstrip s)) s = rev (takeWhile isspace (rev s))"
    using rstrip_split [of s] by (metis append_eq_conv_conj)
  moreover have "list_all isspace (rev (takeWhile isspace (rev s)))"
    by (simp add: list_all_iff) (meson set_takeWhileD)
  ultimately show ?thesis by simp
qed

lemma rstrip_no_trailing_space: "rstrip s = [] \<or> \<not> isspace (last (rstrip s))"
proof (cases "dropWhile isspace (rev s)")
  case Nil
  then show ?thesis by (simp add: rstrip_def)
next
  case (Cons c cs)
  then have "\<not> isspace (hd (dropWhile isspace (rev s)))"
    using hd_dropWhile [of isspace "rev s"] by simp
  with Cons show ?thesis by (simp add: rstrip_def)
qed

lemma rstrip_blank_lines: "rstrip ''[project]\<newline>\<newline>\<newline>'' = ''[project]''"
  by (simp add: rstrip_def isspace_def)

subsection \<open>The outcomes of a copy\<close>

lemma copy_success:
  assumes "copy_config_to_project w td m = (Inr p, w')"
  shows "\<exists>bundled. read_text w (get_python_config_path w) = Inr bundled \<and>
     writes w' = writes w @ [p] \<and>
     (if m \<and> exists w (canonical_file w td)
      then p = canonical_file w td \<and>
        (\<exists>existing. read_text w p = Inr existing \<and>
           fs w' = (fs w)(p \<mapsto> File (rstrip existing @ separator @ header @ bundled)))
      else p = (if exists w (canonical_file w td) then sidecar_file w td
                else canonical_file w td) \<and>
           fs w' = (fs w)(p \<mapsto> File (header @ bundled)))"
  using assms
  by (auto simp: copy_config_to_project_def Let_def
      simp del: print_lines.simps
      split: sum.splits prod.splits if_splits option.splits
      dest!: write_text_Inr print_lines_frame)

text \<open>
  A copy succeeds whenever its reads succeed, the target is not a directory, the
  write to the target completes and the console takes every line.
\<close>

lemma copy_succeeds:
  assumes "read_text w (get_python_config_path w) = Inr bundled"
    and "m \<and> exists w (canonical_file w td)
         \<Longrightarrow> read_text w (canonical_file w td) = Inr existing"
    and "fs w (placement_target w td m) \<noteq> Some Dir"
    and "write_fate w (placement_target w td m) = Completes"
    and "\<And>n. stdout_fault w n = None"
  shows "fst (copy_config_to_project w td m) = Inr (placement_target w td m)"
proof -
  have quiet: "r = None"
    if "print_lines v ns = (r, v')" and "stdout_fault v = stdout_fault w" for v ns r v'
  proof (cases r)
    case None
    then show ?thesis .
  next
    case (Some e)
    with that(1) print_lines_fault [of v ns e v'] that(2) assms(5) show ?thesis
      by simp
  qed
  show ?thesis
  proof (cases "m \<and> exists w (canonical_file w td)")
    case True
    let ?c = "rstrip existing @ separator @ header @ bundled"
    let ?w1 = "w\<lparr>fs := (fs w)(canonical_file w td \<mapsto> File ?c),
                   writes := writes w @ [canonical_file w td]\<rparr>"
    from True assms(3,4) have wt: "write_text w (canonical_file w td) ?c = (Inr (), ?w1)"
      by (intro write_text_Completes) simp_all
    obtain r w2 where pl: "print_lines ?w1
        ([Appended (canonical_file w td), ReviewMerged, RemoveDuplicates, MergeConflicting]
         @ next_steps (canonical_file w td)) = (r, w2)"
      by (metis prod.collapse)
    from quiet [OF pl] have "r = None" by simp
    with True assms(1,2) wt pl show ?thesis
      by (simp add: copy_config_to_project_def Let_def del: print_lines.simps)
  next
    case False
    show ?thesis
    proof (cases "exists w (canonical_file w td)")
      case True
      with False have nm: "\<not> m" by simp
      obtain r1 w1 where p1: "print_lines w
          [AlreadyExists (name (sidecar_file w td)), MergeHint] = (r1, w1)"
        by (metis prod.collapse)
      from quiet [OF p1] have r1: "r1 = None" by simp
      note f = print_lines_frame [OF p1]
      let ?w2 = "w1\<lparr>fs := (fs w1)(sidecar_file w td \<mapsto> File (header @ bundled)),
                      writes := writes w1 @ [sidecar_file w td]\<rparr>"
      from f assms(3,4) True nm
      have wt: "write_text w1 (sidecar_file w td) (header @ bundled) = (Inr (), ?w2)"
        by (intro write_text_Completes) simp_all
      obtain r3 w3 where p3: "print_lines ?w2
          (Copied (sidecar_file w td) # next_steps (sidecar_file w td)) = (r3, w3)"
        by (metis prod.collapse)
      from quiet [OF p3] f have "r3 = None" by simp
      with True nm assms(1) p1 r1 wt p3 show ?thesis
        by (simp add: copy_config_to_project_def Let_def del: print_lines.simps)
    next
      case nex: False
      let ?w2 = "w\<lparr>fs := (fs w)(canonical_file w td \<mapsto> File (header @ bundled)),
                     writes := writes w @ [canonical_file w td]\<rparr>"
      from nex assms(3,4)
      have wt: "write_text w (canonical_file w td) (header @ bundled) = (Inr (), ?w2)"
        by (intro write_text_Completes) simp_all
      obtain r3 w3 where p3: "print_lines ?w2
          (Copied (canonical_file w td) # next_steps (canonical_file w td)) = (r3, w3)"
        by (metis prod.collapse)
      from quiet [OF p3] have "r3 = None" by simp
      with nex assms(1) wt p3 show ?thesis
        by (simp add: copy_config_to_project_def Let_def del: print_lines.simps)
    qed
  qed
qed

lemma copy_frame:
  assumes "copy_config_to_project w td m = (r, w')"
  shows "cwd w' = cwd w \<and> package_dir w' = package_dir w \<and> read_fault w' = read_fault w \<and>
         write_fate w' = write_fate w \<and> stdout_fault w' = stdout_fault w \<and>
         stderr w' = stderr w"
  using assms
  by (auto simp: copy_config_to_project_def Let_def
      simp del: print_lines.simps
      split: sum.splits prod.splits if_splits option.splits
      dest!: write_text_frame print_lines_frame)

subsection \<open>A failing write or print\<close>

lemma print_lines_Some:
  assumes "print_lines w ns = (Some e, w')"
  shows "(\<exists>n. stdout_fault w n = Some e) \<and> fs w' = fs w \<and> writes w' = writes w \<and>
         write_fate w' = write_fate w \<and> stdout_fault w' = stdout_fault w"
  using print_lines_fault [OF assms] print_lines_frame [OF assms] by simp

lemma write_then_print_fails:
  assumes "write_text v t c = (rw, v1)" and "print_lines v1 ns = (rp, v2)"
    and "(rw = Inl e \<and> w' = v1) \<or> ((\<exists>u. rw = Inr u) \<and> rp = Some e \<and> w' = v2)"
  shows "(fs w' = fs v \<and> writes w' = writes v \<and>
            ((fs v t = Some Dir \<and> e = IsADirectoryError) \<or> write_fate v t = FailsAtOpen e))
       \<or> (\<exists>n. write_fate v t = FailsAfterOpen n e \<and> writes w' = writes v @ [t] \<and>
             (\<forall>q. q \<noteq> t \<longrightarrow> fs w' q = fs v q))
       \<or> (write_fate v t = Completes \<and> (\<exists>n. stdout_fault v n = Some e) \<and>
           writes w' = writes v @ [t] \<and> (\<forall>q. q \<noteq> t \<longrightarrow> fs w' q = fs v q) \<and>
           fs w' t = Some (File c))"
  using assms(3)
proof
  assume a: "rw = Inl e \<and> w' = v1"
  with assms(1) have "write_text v t c = (Inl e, w')" by simp
  from write_text_Inl [OF this] show ?thesis by auto
next
  assume a: "(\<exists>u. rw = Inr u) \<and> rp = Some e \<and> w' = v2"
  then obtain u where "rw = Inr u" by blast
  with assms(1) have "write_text v t c = (Inr u, v1)" by simp
  from write_text_Inr [OF this]
  have v1: "v1 = v\<lparr>fs := (fs v)(t \<mapsto> File c), writes := writes v @ [t]\<rparr>"
    and c: "write_fate v t = Completes" by simp_all
  from a assms(2) have "print_lines v1 ns = (Some e, w')" by simp
  from print_lines_Some [OF this] v1 c show ?thesis by simp
qed

subsection \<open>The show subcommand\<close>

lemma main_show:
  "main w (Show cat) =
     (case (if cat then read_text w (get_python_config_path w) else Inr []) of
        Inl e \<Rightarrow> (Inl e, w)
      | Inr content \<Rightarrow>
         (case stdout_fault w (if cat then ShowContent content
                               else ShowPath (get_python_config_path w)) of
            Some e \<Rightarrow> (Inl e, w)
          | None \<Rightarrow>
             (Inr 0, w\<lparr>stdout := stdout w @ [if cat then ShowContent content
                                               else ShowPath (get_python_config_path w)]\<rparr>)))"
  by (simp add: main_def Let_def print_def split: sum.splits option.splits)

lemma main_show_determined:
  assumes "fs v = fs w" and "read_fault v = read_fault w"
    and "package_dir v = package_dir w" and "stdout_fault v = stdout_fault w"
  shows "\<exists>out. main w (Show cat) = (fst (main w (Show cat)), w\<lparr>stdout := stdout w @ out\<rparr>) \<and>
               main v (Show cat) = (fst (main w (Show cat)), v\<lparr>stdout := stdout v @ out\<rparr>)"
proof -
  have g: "get_python_config_path v = get_python_config_path w"
    using assms(3) by (simp add: get_python_config_path_def)
  have r: "read_text v p = read_text w p" for p
    using assms(1,2) by (rule read_text_same)
  have mv: "main v (Show cat) =
     (case (if cat then read_text w (get_python_config_path w) else Inr []) of
        Inl e \<Rightarrow> (Inl e, v)
      | Inr content \<Rightarrow>
         (case stdout_fault w (if cat then ShowContent content
                               else ShowPath (get_python_config_path w)) of
            Some e \<Rightarrow> (Inl e, v)
          | None \<Rightarrow>
             (Inr 0, v\<lparr>stdout := stdout v @ [if cat then ShowContent content
                                               else ShowPath (get_python_config_path w)]\<rparr>)))"
    by (simp only: main_show [of v] g r assms(4))
  note mw = main_show [of w cat]
  show ?thesis
  proof (cases "if cat then read_text w (get_python_config_path w) else Inr []")
    case (Inl e)
    have "main w (Show cat) = (Inl e, w\<lparr>stdout := stdout w @ []\<rparr>) \<and>
               main v (Show cat) = (Inl e, v\<lparr>stdout := stdout v @ []\<rparr>)"
      unfolding mw mv Inl by simp
    then show ?thesis by (metis fst_conv)
  next
    case (Inr content)
    let ?n = "if cat then ShowContent content else ShowPath (get_python_config_path w)"
    show ?thesis
    proof (cases "stdout_fault w ?n")
      case None
      have "main w (Show cat) = (Inr 0, w\<lparr>stdout := stdout w @ [?n]\<rparr>) \<and>
               main v (Show cat) = (Inr 0, v\<lparr>stdout := stdout v @ [?n]\<rparr>)"
        unfolding mw mv Inr using None by simp
      then show ?thesis by (metis fst_conv)
    next
      case (Some e)
      have "main w (Show cat) = (Inl e, w\<lparr>stdout := stdout w @ []\<rparr>) \<and>
               main v (Show cat) = (Inl e, v\<lparr>stdout := stdout v @ []\<rparr>)"
        unfolding mw mv Inr using Some by simp
      then show ?thesis by (metis fst_conv)
    qed
  qed
qed

lemma show_is_repeatable:
    "get_python_config_path (snd (main w (Show cat))) = get_python_config_path w \<and>
     read_text (snd (main w (Show cat))) (get_python_config_path w)
       = read_text w (get_python_config_path w) \<and>
     fst (main (snd (main w (Show cat))) (Show cat)) = fst (main w (Show cat)) \<and>
     stdout (snd (main (snd (main w (Show cat))) (Show cat)))
       = stdout (snd (main w (Show cat)))
         @ drop (length (stdout w)) (stdout (snd (main w (Show cat))))"
proof -
  obtain out0 where m0: "main w (Show cat)
      = (fst (main w (Show cat)), w\<lparr>stdout := stdout w @ out0\<rparr>)"
    using main_show_determined [of w w cat] by auto
  let ?v = "w\<lparr>stdout := stdout w @ out0\<rparr>"
  have v: "snd (main w (Show cat)) = ?v"
    using m0 by (metis snd_conv)
  obtain out where m1: "main w (Show cat)
      = (fst (main w (Show cat)), w\<lparr>stdout := stdout w @ out\<rparr>)"
    and m2: "main ?v (Show cat) = (fst (main w (Show cat)), ?v\<lparr>stdout := stdout ?v @ out\<rparr>)"
    using main_show_determined [of ?v w cat] by auto
  from m0 m1 have "w\<lparr>stdout := stdout w @ out0\<rparr> = w\<lparr>stdout := stdout w @ out\<rparr>"
    by (metis snd_conv)
  then have "stdout (w\<lparr>stdout := stdout w @ out0\<rparr>) = stdout (w\<lparr>stdout := stdout w @ out\<rparr>)"
    by (rule arg_cong)
  then have oo: "out0 = out" by simp
  have g: "get_python_config_path ?v = get_python_config_path w"
    by (simp add: get_python_config_path_def)
  have r: "read_text ?v (get_python_config_path w) = read_text w (get_python_config_path w)"
    by (rule read_text_same) simp_all
  show ?thesis
    unfolding v using g r m2 oo by simp
qed

section \<open>Merging into an existing pyproject.toml\<close>

text \<open>
  Claim C1, as the code has it. When \<open>pyproject.toml\<close> is a file of the target
  directory and merging is requested, a successful \<open>copy_config_to_project\<close> writes
  back to that same path. The new content starts with the old content as \<^verbatim>\<open>read_text\<close>
  gives it (every \<^verbatim>\<open>\r\n\<close> and lone \<^verbatim>\<open>\r\<close> replaced by \<^verbatim>\<open>\n\<close>; the old content
  itself when it has no \<^verbatim>\<open>\r\<close>) without its trailing whitespace; then come the
  separator block, the attribution header and the bundled content, in that order. Of
  the text read, all trailing whitespace is dropped and nothing else: the stripped text
  is a prefix of the text read, what follows it there is whitespace, and the stripped
  text does not end in whitespace.
\<close>

theorem merge_appends_to_stripped_original:
  assumes "fs w (canonical_file w td) = Some (File existing)"
    and "read_text w (get_python_config_path w) = Inr bundled"
    and "copy_config_to_project w td True = (Inr p, w')"
  shows "p = canonical_file w td \<and>
         fs w' p = Some (File (rstrip (universal_newlines existing)
                               @ separator @ header @ bundled)) \<and>
         prefix (rstrip (universal_newlines existing)) (universal_newlines existing) \<and>
         list_all isspace (drop (length (rstrip (universal_newlines existing)))
                                (universal_newlines existing)) \<and>
         (rstrip (universal_newlines existing) = []
          \<or> \<not> isspace (last (rstrip (universal_newlines existing)))) \<and>
         (CHR 0x0D \<notin> set existing \<longrightarrow> universal_newlines existing = existing)"
proof -
  have ex: "exists w (canonical_file w td)"
    using assms(1) by (simp add: exists_def)
  from copy_success [OF assms(3)] ex assms(2)
  obtain e where p: "p = canonical_file w td" and r: "read_text w p = Inr e"
    and f: "fs w' = (fs w)(p \<mapsto> File (rstrip e @ separator @ header @ bundled))"
    by auto
  from read_text_File [OF r] assms(1) p have "e = universal_newlines existing"
    by auto
  with p f show ?thesis
    using rstrip_no_trailing_space [of "universal_newlines existing"]
    by (simp add: rstrip_prefix rstrip_drops_space universal_newlines_no_CR)
qed

text \<open>
  The theorem on the sample project whose \<open>pyproject.toml\<close> has two lines that end in
  \<^verbatim>\<open>\r\n\<close>: both line ends are rewritten and the last one is stripped.
\<close>

theorem merge_appends_to_stripped_original_witness:
  "(fs project_with_crlf (canonical_file project_with_crlf (Some project_dir))
      = Some (File (''[project]'' @ [CHR 0x0D, CHR 0x0A] @ ''name = 1'' @ [CHR 0x0D, CHR 0x0A])) \<and>
    read_text project_with_crlf (get_python_config_path project_with_crlf)
      = Inr ''[tool.ruff]\<newline>'' \<and>
    fst (copy_config_to_project project_with_crlf (Some project_dir) True)
      = Inr [''home'', ''project'', ''pyproject.toml'']) \<and>
   fs (snd (copy_config_to_project project_with_crlf (Some project_dir) True))
      [''home'', ''project'', ''pyproject.toml'']
      = Some (File (''[project]\<newline>name = 1'' @ separator @ header @ ''[tool.ruff]\<newline>''))"
proof -
  have h1: "fs project_with_crlf (canonical_file project_with_crlf (Some project_dir))
      = Some (File (''[project]'' @ [CHR 0x0D, CHR 0x0A] @ ''name = 1'' @ [CHR 0x0D, CHR 0x0A]))"
    by (simp add: project_with_crlf_def run_defs)
  have h2: "read_text project_with_crlf (get_python_config_path project_with_crlf)
      = Inr ''[tool.ruff]\<newline>''"
    by (simp add: project_with_crlf_def run_defs)
  have h3: "fst (copy_config_to_project project_with_crlf (Some project_dir) True)
      = Inr [''home'', ''project'', ''pyproject.toml'']"
    by (simp add: project_with_crlf_def run_defs)
  have u: "rstrip (universal_newlines
      (''[project]'' @ [CHR 0x0D, CHR 0x0A] @ ''name = 1'' @ [CHR 0x0D, CHR 0x0A]))
      = ''[project]\<newline>name = 1''"
    by (simp add: rstrip_def isspace_def)
  note t = merge_appends_to_stripped_original [OF h1 h2 result_pair [OF h3]]
  have r: "fs (snd (copy_config_to_project project_with_crlf (Some project_dir) True))
      [''home'', ''project'', ''pyproject.toml'']
      = Some (File (''[project]\<newline>name = 1'' @ separator @ header @ ''[tool.ruff]\<newline>''))"
    using t [THEN conjunct2, THEN conjunct1] by (simp only: u)
  show ?thesis using h1 h2 h3 r by blast
qed

text \<open>
  Claim C1 as stated asks for the old content itself before the appended block. A
  \<open>pyproject.toml\<close> that ends in blank lines shows the difference: the file written is
  not the old content followed by separator, header and bundled content, the old content
  is not even a prefix of it, and it is three characters shorter than a pure append.
\<close>

theorem merge_discards_trailing_blank_lines:
  "fs project_with_blank_lines [''home'', ''project'', ''pyproject.toml'']
      = Some (File ''[project]\<newline>\<newline>\<newline>'') \<and>
   read_text project_with_blank_lines (get_python_config_path project_with_blank_lines)
      = Inr ''[tool.ruff]\<newline>'' \<and>
   fst (copy_config_to_project project_with_blank_lines (Some project_dir) True)
      = Inr [''home'', ''project'', ''pyproject.toml''] \<and>
   fs (snd (copy_config_to_project project_with_blank_lines (Some project_dir) True))
      [''home'', ''project'', ''pyproject.toml'']
      = Some (File (''[project]'' @ separator @ header @ ''[tool.ruff]\<newline>'')) \<and>
   ''[project]'' @ separator @ header @ ''[tool.ruff]\<newline>''
      \<noteq> ''[project]\<newline>\<newline>\<newline>'' @ separator @ header @ ''[tool.ruff]\<newline>'' \<and>
   \<not> prefix ''[project]\<newline>\<newline>\<newline>''
        (''[project]'' @ separator @ header @ ''[tool.ruff]\<newline>'') \<and>
   length (''[project]'' @ separator @ header @ ''[tool.ruff]\<newline>'')
      < length (''[project]\<newline>\<newline>\<newline>'' @ separator @ header @ ''[tool.ruff]\<newline>'')"
proof -
  have "fs (snd (copy_config_to_project project_with_blank_lines (Some project_dir) True))
      [''home'', ''project'', ''pyproject.toml'']
      = Some (File (''[project]'' @ separator @ header @ ''[tool.ruff]\<newline>''))"
    by (simp add: project_with_blank_lines_def run_defs rstrip_blank_lines)
  moreover have "\<not> prefix ''[project]\<newline>\<newline>\<newline>''
        (''[project]'' @ separator @ header @ ''[tool.ruff]\<newline>'')"
    by (simp add: separator_def)
  moreover have "fs project_with_blank_lines [''home'', ''project'', ''pyproject.toml'']
      = Some (File ''[project]\<newline>\<newline>\<newline>'')"
    by (simp add: project_with_blank_lines_def run_defs)
  moreover have "read_text project_with_blank_lines (get_python_config_path project_with_blank_lines)
      = Inr ''[tool.ruff]\<newline>''"
    by (simp add: project_with_blank_lines_def run_defs)
  moreover have "fst (copy_config_to_project project_with_blank_lines (Some project_dir) True)
      = Inr [''home'', ''project'', ''pyproject.toml'']"
    by (simp add: project_with_blank_lines_def run_defs)
  moreover have "''[project]'' @ separator @ header @ ''[tool.ruff]\<newline>''
      \<noteq> ''[project]\<newline>\<newline>\<newline>'' @ separator @ header @ ''[tool.ruff]\<newline>''"
    by (simp add: separator_def)
  ultimately show ?thesis by simp
qed

section \<open>Creating the canonical file\<close>

text \<open>
  Claim C4. When the target directory has no \<open>pyproject.toml\<close> and merging is not
  requested, a successful \<open>copy_config_to_project\<close> returns a path whose last
  component is \<open>pyproject.toml\<close>, and the file at that path then holds the attribution
  header followed at once by the bundled content, and nothing else.
\<close>

theorem create_new_without_merge:
  assumes "\<not> exists w (canonical_file w td)"
    and "read_text w (get_python_config_path w) = Inr bundled"
    and "copy_config_to_project w td False = (Inr p, w')"
  shows "name p = ''pyproject.toml'' \<and> fs w' p = Some (File (header @ bundled))"
  using copy_success [OF assms(3)] assms(1,2)
  by (auto simp: name_joinpath)

text \<open>
  The theorem on the empty sample project, with the current directory as target.
\<close>

theorem create_new_without_merge_witness:
  "(\<not> exists empty_project (canonical_file empty_project None) \<and>
    read_text empty_project (get_python_config_path empty_project) = Inr ''[tool.ruff]\<newline>'' \<and>
    fst (copy_config_to_project empty_project None False)
      = Inr [''home'', ''project'', ''pyproject.toml'']) \<and>
   name [''home'', ''project'', ''pyproject.toml''] = ''pyproject.toml'' \<and>
   fs (snd (copy_config_to_project empty_project None False))
      [''home'', ''project'', ''pyproject.toml'']
      = Some (File (header @ ''[tool.ruff]\<newline>''))"
proof -
  have h1: "\<not> exists empty_project (canonical_file empty_project None)"
    by (simp add: empty_project_def run_defs)
  have h2: "read_text empty_project (get_python_config_path empty_project)
      = Inr ''[tool.ruff]\<newline>''"
    by (simp add: empty_project_def run_defs)
  have h3: "fst (copy_config_to_project empty_project None False)
      = Inr [''home'', ''project'', ''pyproject.toml'']"
    by (simp add: empty_project_def run_defs)
  note t = create_new_without_merge [OF h1 h2 result_pair [OF h3]]
  show ?thesis using h1 h2 h3 t by blast
qed

text \<open>
  Claim C7. When the target directory has no \<open>pyproject.toml\<close>, the call with merging
  requested is the call without it: the same result, the same files, the same notices.
\<close>

theorem merge_without_canonical_is_plain_copy:
  assumes "\<not> exists w (canonical_file w td)"
  shows "copy_config_to_project w td True = copy_config_to_project w td False"
  using assms by (simp add: copy_config_to_project_def Let_def split: sum.splits)

text \<open>
  On the empty sample project both calls succeed and return \<open>pyproject.toml\<close>.
\<close>

theorem merge_without_canonical_is_plain_copy_witness:
  "\<not> exists empty_project (canonical_file empty_project (Some project_dir)) \<and>
   copy_config_to_project empty_project (Some project_dir) True
     = copy_config_to_project empty_project (Some project_dir) False \<and>
   fst (copy_config_to_project empty_project (Some project_dir) True)
     = Inr [''home'', ''project'', ''pyproject.toml'']"
proof -
  have h1: "\<not> exists empty_project (canonical_file empty_project (Some project_dir))"
    by (simp add: empty_project_def run_defs)
  have h2: "fst (copy_config_to_project empty_project (Some project_dir) True)
     = Inr [''home'', ''project'', ''pyproject.toml'']"
    by (simp add: empty_project_def run_defs)
  show ?thesis using h1 h2 merge_without_canonical_is_plain_copy [OF h1] by blast
qed

section \<open>The sidecar file\<close>

text \<open>
  Claim C5. When \<open>pyproject.toml\<close> is a file of the target directory and merging is not
  requested, then after a successful \<open>copy_config_to_project\<close> that file has the content
  it had before, the returned path ends in \<open>pyproject-linters.toml\<close>, and the call has
  opened exactly one file for writing, the one it returns.
\<close>

theorem sidecar_leaves_canonical_unchanged:
  assumes "fs w (canonical_file w td) = Some (File existing)"
    and "copy_config_to_project w td False = (Inr p, w')"
  shows "fs w' (canonical_file w td) = Some (File existing) \<and>
         name p = ''pyproject-linters.toml'' \<and>
         writes w' = writes w @ [p]"
proof -
  have "exists w (canonical_file w td)"
    using assms(1) by (simp add: exists_def)
  with copy_success [OF assms(2)] assms(1) show ?thesis
    by (auto simp: name_joinpath joinpath_names_differ)
qed

text \<open>
  The theorem on the sample project whose \<open>pyproject.toml\<close> ends in blank lines.
\<close>

theorem sidecar_leaves_canonical_unchanged_witness:
  "(fs project_with_blank_lines (canonical_file project_with_blank_lines None)
      = Some (File ''[project]\<newline>\<newline>\<newline>'') \<and>
    fst (copy_config_to_project project_with_blank_lines None False)
      = Inr [''home'', ''project'', ''pyproject-linters.toml'']) \<and>
   fs (snd (copy_config_to_project project_with_blank_lines None False))
      (canonical_file project_with_blank_lines None)
      = Some (File ''[project]\<newline>\<newline>\<newline>'') \<and>
   name [''home'', ''project'', ''pyproject-linters.toml''] = ''pyproject-linters.toml'' \<and>
   writes (snd (copy_config_to_project project_with_blank_lines None False))
      = writes project_with_blank_lines @ [[''home'', ''project'', ''pyproject-linters.toml'']]"
proof -
  have h1: "fs project_with_blank_lines (canonical_file project_with_blank_lines None)
      = Some (File ''[project]\<newline>\<newline>\<newline>'')"
    by (simp add: project_with_blank_lines_def run_defs)
  have h2: "fst (copy_config_to_project project_with_blank_lines None False)
      = Inr [''home'', ''project'', ''pyproject-linters.toml'']"
    by (simp add: project_with_blank_lines_def run_defs)
  note t = sidecar_leaves_canonical_unchanged [OF h1 result_pair [OF h2]]
  show ?thesis using h1 h2 t by blast
qed

text \<open>
  Claim C2, as the code has it. When \<open>pyproject.toml\<close> exists in the target directory
  and merging is not requested, a successful \<open>copy_config_to_project\<close> does not write
  to \<open>pyproject.toml\<close>: its only write goes to the fixed name
  \<open>pyproject-linters.toml\<close> in the target directory, a path other than the canonical
  one, the canonical path keeps what it held, and the sidecar holds header and bundled
  content afterwards, whatever it held before.
\<close>

theorem sidecar_spares_canonical:
  assumes "exists w (canonical_file w td)"
    and "read_text w (get_python_config_path w) = Inr bundled"
    and "copy_config_to_project w td False = (Inr p, w')"
  shows "p = sidecar_file w td \<and> p \<noteq> canonical_file w td \<and>
         writes w' = writes w @ [p] \<and>
         fs w' (canonical_file w td) = fs w (canonical_file w td) \<and>
         fs w' p = Some (File (header @ bundled))"
  using copy_success [OF assms(3)] assms(1,2)
  by (auto simp: joinpath_names_differ)

text \<open>
  The theorem on the sample project that has a \<open>pyproject.toml\<close> and no sidecar.
\<close>

theorem sidecar_spares_canonical_witness:
  "(exists project_with_pyproject (canonical_file project_with_pyproject (Some project_dir)) \<and>
    read_text project_with_pyproject (get_python_config_path project_with_pyproject)
      = Inr ''[tool.ruff]\<newline>'' \<and>
    fst (copy_config_to_project project_with_pyproject (Some project_dir) False)
      = Inr [''home'', ''project'', ''pyproject-linters.toml'']) \<and>
   writes (snd (copy_config_to_project project_with_pyproject (Some project_dir) False))
      = [[''home'', ''project'', ''pyproject-linters.toml'']] \<and>
   fs (snd (copy_config_to_project project_with_pyproject (Some project_dir) False))
      [''home'', ''project'', ''pyproject.toml''] = Some (File ''[project]\<newline>'')"
proof -
  have h1: "exists project_with_pyproject
      (canonical_file project_with_pyproject (Some project_dir))"
    by (simp add: project_with_pyproject_def run_defs)
  have h2: "read_text project_with_pyproject (get_python_config_path project_with_pyproject)
      = Inr ''[tool.ruff]\<newline>''"
    by (simp add: project_with_pyproject_def run_defs)
  have h3: "fst (copy_config_to_project project_with_pyproject (Some project_dir) False)
      = Inr [''home'', ''project'', ''pyproject-linters.toml'']"
    by (simp add: project_with_pyproject_def run_defs)
  note t = sidecar_spares_canonical [OF h1 h2 result_pair [OF h3]]
  have w0: "writes project_with_pyproject = []"
    by (simp add: project_with_pyproject_def sample_world_def)
  have f0: "fs project_with_pyproject [''home'', ''project'', ''pyproject.toml'']
      = Some (File ''[project]\<newline>'')"
    by (simp add: project_with_pyproject_def sample_world_def)
  have a: "writes (snd (copy_config_to_project project_with_pyproject (Some project_dir) False))
      = [[''home'', ''project'', ''pyproject-linters.toml'']]"
    using t w0 by simp
  have b: "fs (snd (copy_config_to_project project_with_pyproject (Some project_dir) False))
      [''home'', ''project'', ''pyproject.toml''] = Some (File ''[project]\<newline>'')"
    using t f0 by (simp add: sample_paths)
  show ?thesis using h1 h2 h3 a b by blast
qed

text \<open>
  Claim C2 as stated also says that the path written did not exist before. The sidecar
  name is fixed and its existence is never tested: in a project that already has both
  files, the call writes to the existing \<open>pyproject-linters.toml\<close> and replaces its
  content.
\<close>

theorem sidecar_overwritten_when_present:
  "exists project_with_sidecar [''home'', ''project'', ''pyproject.toml''] \<and>
   exists project_with_sidecar [''home'', ''project'', ''pyproject-linters.toml''] \<and>
   fs project_with_sidecar [''home'', ''project'', ''pyproject-linters.toml'']
      = Some (File ''[tool.black]\<newline>'') \<and>
   fst (copy_config_to_project project_with_sidecar (Some project_dir) False)
      = Inr [''home'', ''project'', ''pyproject-linters.toml''] \<and>
   writes (snd (copy_config_to_project project_with_sidecar (Some project_dir) False))
      = [[''home'', ''project'', ''pyproject-linters.toml'']] \<and>
   fs (snd (copy_config_to_project project_with_sidecar (Some project_dir) False))
      [''home'', ''project'', ''pyproject-linters.toml'']
      = Some (File (header @ ''[tool.ruff]\<newline>'')) \<and>
   header @ ''[tool.ruff]\<newline>'' \<noteq> ''[tool.black]\<newline>''"
proof -
  have "header @ ''[tool.ruff]\<newline>'' \<noteq> ''[tool.black]\<newline>''"
    by (simp add: header_def)
  then show ?thesis
    by (simp add: project_with_sidecar_def run_defs)
qed

section \<open>The placement decision\<close>



section \<open>What every successful copy leaves behind\<close>

text \<open>
  Claim C10. After a successful \<open>copy_config_to_project\<close>, whichever branch was taken,
  the returned path holds a file whose content ends with the attribution header followed
  by the bundled content, and the parent of the returned path is the target directory.
\<close>

theorem written_file_ends_with_header_and_bundle:
  assumes "read_text w (get_python_config_path w) = Inr bundled"
    and "copy_config_to_project w td m = (Inr p, w')"
  shows "(\<exists>c. fs w' p = Some (File c) \<and> suffix (header @ bundled) c) \<and>
         parent p = target_directory w td"
  using copy_success [OF assms(2)] assms(1)
  by (auto simp: parent_joinpath suffix_def split: if_splits)

text \<open>
  The theorem on a merge into the sample project that has both files.
\<close>

theorem written_file_ends_with_header_and_bundle_witness:
  "(read_text project_with_sidecar (get_python_config_path project_with_sidecar)
      = Inr ''[tool.ruff]\<newline>'' \<and>
    fst (copy_config_to_project project_with_sidecar None True)
      = Inr [''home'', ''project'', ''pyproject.toml'']) \<and>
   (\<exists>c. fs (snd (copy_config_to_project project_with_sidecar None True))
           [''home'', ''project'', ''pyproject.toml''] = Some (File c) \<and>
        suffix (header @ ''[tool.ruff]\<newline>'') c) \<and>
   parent [''home'', ''project'', ''pyproject.toml''] = target_directory project_with_sidecar None"
proof -
  have h1: "read_text project_with_sidecar (get_python_config_path project_with_sidecar)
      = Inr ''[tool.ruff]\<newline>''"
    by (simp add: project_with_sidecar_def run_defs)
  have h2: "fst (copy_config_to_project project_with_sidecar None True)
      = Inr [''home'', ''project'', ''pyproject.toml'']"
    by (simp add: project_with_sidecar_def run_defs)
  note t = written_file_ends_with_header_and_bundle [OF h1 result_pair [OF h2]]
  show ?thesis using h1 h2 t by blast
qed

section \<open>Running twice\<close>

text \<open>
  Claim C6. Start from a target directory without \<open>pyproject.toml\<close>. If a first
  \<open>copy_config_to_project\<close> succeeds, it has written the canonical path; a second call
  with the default \<open>merge_with_existing = False\<close> that succeeds then returns and writes
  the sidecar path \<open>pyproject-linters.toml\<close> and leaves the canonical file as the first
  call wrote it. The \<open>show\<close> subcommand changes neither the path of the bundled file
  nor what reading it gives, so a second \<open>show\<close> ends as the first did and prints
  again exactly what the first printed.
\<close>

theorem copy_twice_and_show_twice:
  assumes "\<not> exists w (canonical_file w td)"
    and "copy_config_to_project w td m = (Inr p1, w1)"
    and "copy_config_to_project w1 td False = (Inr p2, w2)"
  shows "p1 = canonical_file w td \<and> p2 = sidecar_file w td \<and>
         writes w2 = writes w @ [p1, p2] \<and> fs w2 p1 = fs w1 p1 \<and>
         get_python_config_path (snd (main w (Show cat))) = get_python_config_path w \<and>
         read_text (snd (main w (Show cat))) (get_python_config_path w)
           = read_text w (get_python_config_path w) \<and>
         fst (main (snd (main w (Show cat))) (Show cat)) = fst (main w (Show cat)) \<and>
         stdout (snd (main (snd (main w (Show cat))) (Show cat)))
           = stdout (snd (main w (Show cat)))
             @ drop (length (stdout w)) (stdout (snd (main w (Show cat))))"
proof -
  from copy_success [OF assms(2)] assms(1)
  have p1: "p1 = canonical_file w td" and wr1: "writes w1 = writes w @ [p1]"
    and "\<exists>bundled. fs w1 = (fs w)(p1 \<mapsto> File (header @ bundled))"
    by auto
  then have ex1: "exists w1 (canonical_file w td)"
    by (auto simp: exists_def)
  have td1: "target_directory w1 td = target_directory w td"
    using copy_frame [OF assms(2)] by (simp add: target_directory_def split: option.splits)
  from copy_success [OF assms(3)] ex1 td1
  have p2: "p2 = sidecar_file w td" and wr2: "writes w2 = writes w1 @ [p2]"
    and "\<exists>bundled. fs w2 = (fs w1)(p2 \<mapsto> File (header @ bundled))"
    by auto
  with p1 have keep: "fs w2 p1 = fs w1 p1"
    by (auto simp: joinpath_names_differ)
  note show_twice = show_is_repeatable [of w cat]
  from p1 p2 wr1 wr2 keep show_twice show ?thesis by simp
qed

text \<open>
  Two copies into the empty sample project, and \<open>show --cat\<close> twice.
\<close>

theorem copy_twice_and_show_twice_witness:
  "(\<not> exists empty_project (canonical_file empty_project None) \<and>
    fst (copy_config_to_project empty_project None False)
      = Inr [''home'', ''project'', ''pyproject.toml''] \<and>
    fst (copy_config_to_project (snd (copy_config_to_project empty_project None False)) None False)
      = Inr [''home'', ''project'', ''pyproject-linters.toml'']) \<and>
   writes (snd (copy_config_to_project
                  (snd (copy_config_to_project empty_project None False)) None False))
      = [[''home'', ''project'', ''pyproject.toml''],
         [''home'', ''project'', ''pyproject-linters.toml'']] \<and>
   fst (main (snd (main empty_project (Show True))) (Show True)) = Inr 0 \<and>
   stdout (snd (main (snd (main empty_project (Show True))) (Show True)))
      = [ShowContent ''[tool.ruff]\<newline>'', ShowContent ''[tool.ruff]\<newline>'']"
proof -
  have h1: "\<not> exists empty_project (canonical_file empty_project None)"
    by (simp add: empty_project_def run_defs)
  have h2: "fst (copy_config_to_project empty_project None False)
      = Inr [''home'', ''project'', ''pyproject.toml'']"
    by (simp add: empty_project_def run_defs)
  have h3: "fst (copy_config_to_project
                   (snd (copy_config_to_project empty_project None False)) None False)
      = Inr [''home'', ''project'', ''pyproject-linters.toml'']"
    by (simp add: empty_project_def run_defs)
  have w0: "writes empty_project = []" and o0: "stdout empty_project = []"
    by (simp_all add: empty_project_def sample_world_def)
  have m1: "fst (main empty_project (Show True)) = Inr 0"
    and m2: "stdout (snd (main empty_project (Show True)))
      = [ShowContent ''[tool.ruff]\<newline>'']"
    by (simp_all add: empty_project_def main_show get_python_config_path_def joinpath_def
        read_text_def sample_world_def bundled_file_def)
  note t = copy_twice_and_show_twice [OF h1 result_pair [OF h2] result_pair [OF h3], of True]
  have a: "writes (snd (copy_config_to_project
                  (snd (copy_config_to_project empty_project None False)) None False))
      = [[''home'', ''project'', ''pyproject.toml''],
         [''home'', ''project'', ''pyproject-linters.toml'']]"
    using t w0 by simp
  have b: "fst (main (snd (main empty_project (Show True))) (Show True)) = Inr 0"
    using t m1 by simp
  have c: "stdout (snd (main (snd (main empty_project (Show True))) (Show True)))
      = [ShowContent ''[tool.ruff]\<newline>'', ShowContent ''[tool.ruff]\<newline>'']"
    using t m2 o0 by simp
  show ?thesis using h1 h2 h3 a b c by blast
qed

section \<open>Failures\<close>

text \<open>
  Claim C8, as the code has it. The function has no handler, so the error it raises is
  the error of the statement that failed, and at most one write is attempted. A failing
  \<open>copy_config_to_project\<close> ends in one of three ways.
  \<^item> Nothing is changed and nothing has been written: the bundled file cannot be
    read, the existing \<open>pyproject.toml\<close> cannot be read in merge mode, the console
    rejects one of the two notices printed before the sidecar is written, or the target
    cannot be opened for writing.
  \<^item> The write fails after the target was opened: the target is the only path that
    may have changed.
  \<^item> The write has completed in full and the console rejects one of the notices
    printed after it: the target holds the new content, ending in header and bundled
    content, and every other path holds what it held.
\<close>

theorem failed_copy_effects:
  assumes "copy_config_to_project w td m = (Inl e, w')"
  shows "(fs w' = fs w \<and> writes w' = writes w \<and>
            (read_text w (get_python_config_path w) = Inl e
             \<or> (m \<and> exists w (canonical_file w td) \<and> read_text w (canonical_file w td) = Inl e)
             \<or> (\<not> m \<and> exists w (canonical_file w td) \<and> (\<exists>n. stdout_fault w n = Some e))
             \<or> (fs w (placement_target w td m) = Some Dir \<and> e = IsADirectoryError)
             \<or> write_fate w (placement_target w td m) = FailsAtOpen e))
       \<or> (\<exists>n. write_fate w (placement_target w td m) = FailsAfterOpen n e \<and>
             writes w' = writes w @ [placement_target w td m] \<and>
             (\<forall>q. q \<noteq> placement_target w td m \<longrightarrow> fs w' q = fs w q))
       \<or> (write_fate w (placement_target w td m) = Completes \<and>
           (\<exists>n. stdout_fault w n = Some e) \<and>
           writes w' = writes w @ [placement_target w td m] \<and>
           (\<forall>q. q \<noteq> placement_target w td m \<longrightarrow> fs w' q = fs w q) \<and>
           (\<exists>c bundled. read_text w (get_python_config_path w) = Inr bundled \<and>
              fs w' (placement_target w td m) = Some (File c) \<and>
              suffix (header @ bundled) c))"
proof (cases "read_text w (get_python_config_path w)")
  case (Inl e0)
  with assms have "e = e0 \<and> w' = w"
    by (simp add: copy_config_to_project_def Let_def)
  with Inl show ?thesis by simp
next
  case bundled: (Inr bundled)
  show ?thesis
  proof (cases "m \<and> exists w (canonical_file w td)")
    case True
    show ?thesis
    proof (cases "read_text w (canonical_file w td)")
      case (Inl e0)
      with assms bundled True have "e = e0 \<and> w' = w"
        by (simp add: copy_config_to_project_def Let_def)
      with Inl True show ?thesis by simp
    next
      case existing: (Inr existing)
      let ?c = "rstrip existing @ separator @ header @ bundled"
      let ?ns = "[Appended (canonical_file w td), ReviewMerged, RemoveDuplicates,
                  MergeConflicting] @ next_steps (canonical_file w td)"
      obtain rw w1 where wt: "write_text w (canonical_file w td) ?c = (rw, w1)"
        by (metis prod.collapse)
      obtain rp w2 where pl: "print_lines w1 ?ns = (rp, w2)"
        by (metis prod.collapse)
      from assms bundled True existing wt pl
      have "(rw = Inl e \<and> w' = w1) \<or> ((\<exists>u. rw = Inr u) \<and> rp = Some e \<and> w' = w2)"
        by (cases rw; cases rp)
          (simp_all add: copy_config_to_project_def Let_def del: print_lines.simps)
      from write_then_print_fails [OF wt pl this] True bundled show ?thesis
        by (auto simp: suffix_def)
    qed
  next
    case False
    let ?t = "placement_target w td m"
    let ?c = "header @ bundled"
    let ?ns = "Copied ?t # next_steps ?t"
    obtain r1 w1 where p1: "(if exists w (canonical_file w td) \<and> \<not> m
          then print_lines w [AlreadyExists (name (sidecar_file w td)), MergeHint]
          else (None, w)) = (r1, w1)"
      by (metis prod.collapse)
    have f1: "fs w1 = fs w \<and> writes w1 = writes w \<and> write_fate w1 = write_fate w \<and>
              stdout_fault w1 = stdout_fault w"
    proof (cases "exists w (canonical_file w td) \<and> \<not> m")
      case True
      with p1 have "print_lines w [AlreadyExists (name (sidecar_file w td)), MergeHint]
          = (r1, w1)" by (simp del: print_lines.simps)
      from print_lines_frame [OF this] show ?thesis by simp
    next
      case False
      with p1 show ?thesis by auto
    qed
    show ?thesis
    proof (cases r1)
      case (Some e0)
      with assms bundled False p1 have ew: "e = e0 \<and> w' = w1"
        by (auto simp: copy_config_to_project_def Let_def simp del: print_lines.simps
            split: if_splits)
      from Some p1 have sc: "exists w (canonical_file w td) \<and> \<not> m"
        by (auto simp del: print_lines.simps split: if_splits)
      with Some p1 have "print_lines w [AlreadyExists (name (sidecar_file w td)), MergeHint]
          = (Some e0, w1)" by (simp del: print_lines.simps)
      from print_lines_Some [OF this] ew sc show ?thesis by simp
    next
      case None
      obtain rw w2 where wt: "write_text w1 ?t ?c = (rw, w2)"
        by (metis prod.collapse)
      obtain rp w3 where pl: "print_lines w2 ?ns = (rp, w3)"
        by (metis prod.collapse)
      from assms bundled False None p1 wt pl
      have "(rw = Inl e \<and> w' = w2) \<or> ((\<exists>u. rw = Inr u) \<and> rp = Some e \<and> w' = w3)"
        by (cases rw; cases rp)
          (auto simp: copy_config_to_project_def Let_def simp del: print_lines.simps
            split: if_splits)
      from write_then_print_fails [OF wt pl this] f1 bundled show ?thesis
        by (auto simp: suffix_def)
    qed
  qed
qed

text \<open>
  The theorem on a sample world in which the package lacks its bundled file: the call
  fails and nothing is written. On a console that cannot encode the check mark, a copy
  into the empty sample project fails too, after its write has completed.
\<close>

theorem failed_copy_effects_witness:
  "fst (copy_config_to_project project_without_package None True) = Inl FileNotFoundError \<and>
   read_text project_without_package (get_python_config_path project_without_package)
     = Inl FileNotFoundError \<and>
   fs (snd (copy_config_to_project project_without_package None True))
     = fs project_without_package \<and>
   writes (snd (copy_config_to_project project_without_package None True)) = [] \<and>
   fst (copy_config_to_project project_on_ascii_console None False) = Inl UnicodeEncodeError \<and>
   writes (snd (copy_config_to_project project_on_ascii_console None False))
     = [[''home'', ''project'', ''pyproject.toml'']] \<and>
   fs (snd (copy_config_to_project project_on_ascii_console None False))
     [''home'', ''project'', ''pyproject.toml'']
     = Some (File (header @ ''[tool.ruff]\<newline>''))"
proof -
  have h: "fst (copy_config_to_project project_without_package None True)
      = Inl FileNotFoundError"
    by (simp add: project_without_package_def run_defs)
  have r: "read_text project_without_package (get_python_config_path project_without_package)
     = Inl FileNotFoundError"
    by (simp add: project_without_package_def run_defs)
  have wf: "write_fate project_without_package q = Completes" for q
    by (simp add: project_without_package_def sample_world_def)
  have sf: "stdout_fault project_without_package n = None" for n
    by (simp add: project_without_package_def sample_world_def)
  have w0: "writes project_without_package = []"
    by (simp add: project_without_package_def sample_world_def)
  note t = failed_copy_effects [OF result_pair [OF h]]
  have a: "fs (snd (copy_config_to_project project_without_package None True))
     = fs project_without_package \<and>
   writes (snd (copy_config_to_project project_without_package None True)) = []"
    using t w0 by (simp add: wf sf)
  have k: "fst (copy_config_to_project project_on_ascii_console None False)
      = Inl UnicodeEncodeError"
    by (simp add: project_on_ascii_console_def empty_project_def ascii_console_def run_defs)
  have kw: "writes (snd (copy_config_to_project project_on_ascii_console None False))
     = [[''home'', ''project'', ''pyproject.toml'']]"
    by (simp add: project_on_ascii_console_def empty_project_def ascii_console_def run_defs)
  have kfs: "fs (snd (copy_config_to_project project_on_ascii_console None False))
     [''home'', ''project'', ''pyproject.toml'']
     = Some (File (header @ ''[tool.ruff]\<newline>''))"
    by (simp add: project_on_ascii_console_def empty_project_def ascii_console_def run_defs)
  show ?thesis using h r a k kw kfs by blast
qed

text \<open>
  Claim C8 as stated says that a failed call modifies no file. \<^verbatim>\<open>write_text\<close> is not
  atomic: on a full disk the merge has opened, and so truncated, the existing
  \<open>pyproject.toml\<close> when the write fails, and the old content is gone.
\<close>

theorem full_disk_truncates_canonical:
  "fs project_on_full_disk [''home'', ''project'', ''pyproject.toml'']
     = Some (File ''[project]\<newline>'') \<and>
   write_fate project_on_full_disk [''home'', ''project'', ''pyproject.toml'']
     = FailsAfterOpen 0 NoSpaceLeftError \<and>
   fst (copy_config_to_project project_on_full_disk (Some project_dir) True)
     = Inl NoSpaceLeftError \<and>
   fs (snd (copy_config_to_project project_on_full_disk (Some project_dir) True))
     [''home'', ''project'', ''pyproject.toml''] = Some (File []) \<and>
   fs (snd (copy_config_to_project project_on_full_disk (Some project_dir) True))
     [''home'', ''project'', ''pyproject.toml'']
     \<noteq> fs project_on_full_disk [''home'', ''project'', ''pyproject.toml'']"
  by (simp add: project_on_full_disk_def run_defs)

section \<open>The copy subcommand\<close>

text \<open>
  Claim C9. The \<open>copy\<close> subcommand returns exit code 0 when
  \<open>copy_config_to_project\<close> succeeds; when it raises, the subcommand prints one error
  line for that error on standard error and returns exit code 1.
\<close>

theorem copy_command_exit_code:
  "(copy_config_to_project w td m = (Inr p, w1) \<longrightarrow> main w (Copy td m) = (Inr 0, w1)) \<and>
   (copy_config_to_project w td m = (Inl e, w1) \<longrightarrow>
      main w (Copy td m) = (Inr 1, w1\<lparr>stderr := stderr w1 @ [ErrorLine e]\<rparr>))"
  by (simp add: main_def print_err_def)

text \<open>
  A successful copy into the empty sample project, and a failing one in a world whose
  package lacks its bundled file.
\<close>

theorem copy_command_exit_code_witness:
  "(fst (copy_config_to_project empty_project None False)
      = Inr [''home'', ''project'', ''pyproject.toml''] \<and>
    fst (main empty_project (Copy None False)) = Inr 0) \<and>
   (fst (copy_config_to_project project_without_package None False) = Inl FileNotFoundError \<and>
    fst (main project_without_package (Copy None False)) = Inr 1 \<and>
    stderr (snd (main project_without_package (Copy None False)))
      = [ErrorLine FileNotFoundError])"
proof -
  have r1: "fst (copy_config_to_project empty_project None False)
      = Inr [''home'', ''project'', ''pyproject.toml'']"
    by (simp add: empty_project_def run_defs)
  have r2: "fst (copy_config_to_project project_without_package None False)
      = Inl FileNotFoundError"
    by (simp add: project_without_package_def run_defs)
  have s2: "stderr (snd (copy_config_to_project project_without_package None False)) = []"
    by (simp add: project_without_package_def run_defs)
  note t1 = copy_command_exit_code [of empty_project None False
      "[''home'', ''project'', ''pyproject.toml'']"
      "snd (copy_config_to_project empty_project None False)", THEN conjunct1, rule_format,
      OF result_pair [OF r1]]
  note t2 = copy_command_exit_code [of project_without_package None False _
      "snd (copy_config_to_project project_without_package None False)" FileNotFoundError,
      THEN conjunct2, rule_format, OF result_pair [OF r2]]
  have a1: "fst (main empty_project (Copy None False)) = Inr 0"
    using t1 by simp
  have a2: "fst (main project_without_package (Copy None False)) = Inr 1"
    using t2 by simp
  have a3: "stderr (snd (main project_without_package (Copy None False)))
      = [ErrorLine FileNotFoundError]"
    using t2 s2 by simp
  show ?thesis using r1 r2 a1 a2 a3 by blast
qed

end
